theory Spec2Isabelle
  imports Main "HOL-Library.Word"
begin

unbundle bit_operations_syntax

section \<open>The SPI access layer of jni/spi.c\<close>

text \<open>
  The file \<^verbatim>\<open>jni/spi.c\<close> wraps the system calls \<^verbatim>\<open>open\<close>, \<^verbatim>\<open>ioctl\<close> and
  \<^verbatim>\<open>close\<close> on a \<^verbatim>\<open>/dev/spidevB.D\<close> character device. The embedding makes
  the operating system explicit: every C function takes the kernel (a function that
  answers a system call, given the calls issued before it) and the list of calls issued so
  far, and returns its C result together with the extended list of calls.

  C \<^verbatim>\<open>int\<close> values (return codes, file descriptors, lengths) are HOL integers;
  \<^verbatim>\<open>uint8_t\<close> and \<^verbatim>\<open>uint32_t\<close> are 8-bit and 32-bit words. A buffer is the
  list of its bytes: the length of the list is the size of the C object.
\<close>

subsection \<open>Machine types and constants\<close>

type_synonym u8 = "8 word"
type_synonym u32 = "32 word"

definition MAX_PATH :: nat where
  "MAX_PATH = 50"

definition MODE0 :: u8 where
  "MODE0 = 0"

definition MODE1 :: u8 where
  "MODE1 = 1"

definition MODE2 :: u8 where
  "MODE2 = 2"

definition MODE3 :: u8 where
  "MODE3 = 3"

text \<open>The largest value of a C \<^verbatim>\<open>int\<close> (32 bits on the target).\<close>

definition INT_MAX :: int where
  "INT_MAX = 2147483647"

subsection \<open>System calls\<close>

text \<open>
  Modelled from the spec: \<^verbatim>\<open>struct spi_ioc_transfer\<close> is declared in
  \<^verbatim>\<open>include/linux/spi/spidev.h\<close>, which is not among the sources. The spec's
  transfer descriptor has a transmit buffer, a receive buffer, a length, a clock speed and
  a bits-per-word value; these are also the only fields \<^verbatim>\<open>spiTransfer\<close> assigns.
  The two pointer fields are represented by the buffers they point to.
\<close>

record spi_ioc_transfer =
  tx_buf :: "u8 list"
  rx_buf :: "u8 list"
  len :: u32
  speed_hz :: u32
  bits_per_word :: u8

text \<open>
  Modelled from the spec: the request codes are macros of the same missing header. One
  constructor stands for each macro the source uses; \<open>SPI_IOC_MESSAGE n\<close> is the
  request for \<open>n\<close> transfers.
\<close>

datatype ioctl_request =
    SPI_IOC_WR_MODE
  | SPI_IOC_RD_MODE
  | SPI_IOC_WR_MAX_SPEED_HZ
  | SPI_IOC_RD_MAX_SPEED_HZ
  | SPI_IOC_WR_BITS_PER_WORD
  | SPI_IOC_RD_BITS_PER_WORD
  | SPI_IOC_MESSAGE nat

text \<open>The object the third argument of \<^verbatim>\<open>ioctl\<close> points to, as it is when the call is made.\<close>

datatype ioctl_arg =
    Arg_u8 u8
  | Arg_u32 u32
  | Arg_transfer spi_ioc_transfer

datatype open_flag = O_RDWR

datatype syscall =
    Sys_open string open_flag
  | Sys_ioctl int ioctl_request ioctl_arg
  | Sys_close int

text \<open>
  The kernel's answer to a call: the value the call returns, and the bytes the kernel
  copies out to the user memory the call's argument designates (the receive buffer of a
  transfer, the variable of a read-back request).
\<close>

record response =
  ret :: int
  copied :: "u8 list"

type_synonym kernel = "syscall list \<Rightarrow> syscall \<Rightarrow> response"

definition sys :: "kernel \<Rightarrow> syscall list \<Rightarrow> syscall \<Rightarrow> response \<times> syscall list" where
  "sys os tr c = (os tr c, tr @ [c])"

text \<open>
  The kernel stores \<open>bytes\<close> from offset 0 of the user buffer \<open>buf\<close>. Bytes past the end
  of the buffer land outside the object; the memory next to a buffer is not modelled, so
  they are dropped here. Whether a call stays inside its buffers is read off the recorded
  call, which keeps the buffers with their sizes.
\<close>

definition copy_to_user :: "u8 list \<Rightarrow> u8 list \<Rightarrow> u8 list" where
  "copy_to_user buf bytes = take (length buf) bytes @ drop (length bytes) buf"

subsection \<open>The device path\<close>

definition digit_char :: "nat \<Rightarrow> char" where
  "digit_char d = ''0123456789'' ! d"

text \<open>The conversion \<^verbatim>\<open>%d\<close> of a non-negative value.\<close>

fun decimal :: "nat \<Rightarrow> string" where
  "decimal n = (if n < 10 then [digit_char n] else decimal (n div 10) @ [digit_char (n mod 10)])"

declare decimal.simps [simp del]

text \<open>
  \<^verbatim>\<open>snprintf(fsBuf, sizeof(fsBuf), "/dev/spidev%d.%d", bus, device)\<close>: at most
  \<open>n - 1\<close> characters are stored, followed by the terminator. The result is the C string
  left in \<^verbatim>\<open>fsBuf\<close>.
\<close>

definition snprintf_path :: "nat \<Rightarrow> u8 \<Rightarrow> u8 \<Rightarrow> string" where
  "snprintf_path n bus device =
     take (n - 1) (''/dev/spidev'' @ decimal (unat bus) @ ''.'' @ decimal (unat device))"

subsection \<open>The functions of spi.c\<close>

text \<open>
  \<^verbatim>\<open>spiTransfer\<close> returns its C result and the receive buffer as the call leaves it
  (the C function updates \<^verbatim>\<open>rx\<close> in place). The length is converted from
  \<^verbatim>\<open>int\<close> to the 32-bit field. Of the bytes the kernel answers with, at most as
  many as the length field says are stored to the receive buffer. The fields of the
  descriptor that the function does not assign are not modelled.
\<close>

definition spiTransfer ::
  "kernel \<Rightarrow> syscall list \<Rightarrow> int \<Rightarrow> u8 list \<Rightarrow> u8 list \<Rightarrow> int \<Rightarrow> (int \<times> u8 list) \<times> syscall list" where
  "spiTransfer os tr spiFD tx rx l =
     (let transfer = \<lparr>tx_buf = tx, rx_buf = rx, len = word_of_int l,
                       speed_hz = 10000, bits_per_word = 8\<rparr>;
          (r, tr') = sys os tr (Sys_ioctl spiFD (SPI_IOC_MESSAGE 1) (Arg_transfer transfer));
          rx' = copy_to_user rx (take (unat (len transfer)) (copied r))
      in ((if ret r < 0 then - 1 else 0, rx'), tr'))"

definition spiReadByte :: "kernel \<Rightarrow> syscall list \<Rightarrow> int \<Rightarrow> u8 \<Rightarrow> int \<times> syscall list" where
  "spiReadByte os tr spiFD regAdd =
     (let tx = replicate 2 (0 :: u8);
          rx = replicate 2 (0 :: u8);
          tx = tx[0 := 0x80 OR regAdd];
          ((status, rx'), tr') = spiTransfer os tr spiFD tx rx 2
      in (uint (rx' ! 1), tr'))"

text \<open>
  \<^verbatim>\<open>spiReadBytes\<close> takes its three buffers from the process's memory, which is a
  parameter of the model: how many bytes of stack are left for the call, and for which
  sizes \<^verbatim>\<open>malloc\<close> returns a buffer rather than a null pointer.
\<close>

record memory =
  stack_free :: nat
  malloc_succeeds :: "nat \<Rightarrow> bool"

text \<open>
  The ways a call of \<^verbatim>\<open>spiReadBytes\<close> ends without returning: a length for which C
  defines no behaviour (negative: an array bound that is not positive; \<open>INT_MAX\<close>:
  \<^verbatim>\<open>len+1\<close> overflows), the two arrays of \<^verbatim>\<open>len+1\<close> bytes not fitting the stack,
  and \<^verbatim>\<open>memcpy\<close> to the null pointer an unchecked \<^verbatim>\<open>malloc\<close> returned.
\<close>

datatype fault = Undefined_length | Stack_overflow | Null_copy

text \<open>
  The source calls \<^verbatim>\<open>malloc\<close> first and does not check its result, then declares
  \<^verbatim>\<open>tx\<close> and \<^verbatim>\<open>rx\<close> on the stack, clears \<^verbatim>\<open>tx\<close> only, transfers, and
  copies to the allocated buffer. The array \<^verbatim>\<open>rx\<close> is not initialised: \<open>garbage\<close>
  gives the bytes it happens to hold. A stack overflow ends the call before the transfer;
  a null buffer ends it after the transfer.
\<close>

definition spiReadBytes ::
  "kernel \<Rightarrow> syscall list \<Rightarrow> memory \<Rightarrow> (nat \<Rightarrow> u8) \<Rightarrow> int \<Rightarrow> int \<Rightarrow> u8
     \<Rightarrow> (fault + u8 list) \<times> syscall list" where
  "spiReadBytes os tr mem garbage spiFD l startAdd =
     (if l < 0 \<or> INT_MAX \<le> l then (Inl Undefined_length, tr)
      else
        let allocated = malloc_succeeds mem (nat l) in
        if stack_free mem < 2 * nat (l + 1) then (Inl Stack_overflow, tr)
        else
          let tx = replicate (nat (l + 1)) (0 :: u8);
              rx = map garbage [0 ..< nat (l + 1)];
              tx = tx[0 := (0x80 OR 0x40) OR startAdd];
              ((status, rx'), tr') = spiTransfer os tr spiFD tx rx (l + 1)
          in if allocated then (Inr (take (nat l) (drop 1 rx')), tr')
             else (Inl Null_copy, tr'))"

definition spiWriteRegByte :: "kernel \<Rightarrow> syscall list \<Rightarrow> int \<Rightarrow> u8 \<Rightarrow> u8 \<Rightarrow> int \<times> syscall list" where
  "spiWriteRegByte os tr spiFD regAdd data =
     (let rx = replicate 2 (0 :: u8);
          tx = [regAdd, data];
          ((status, rx'), tr') = spiTransfer os tr spiFD tx rx 2
      in (0, tr'))"

definition spiWriteBytes :: "kernel \<Rightarrow> syscall list \<Rightarrow> int \<Rightarrow> u8 list \<Rightarrow> int \<Rightarrow> int \<times> syscall list" where
  "spiWriteBytes os tr spiFD data l =
     (let null = (0x00 :: u8);
          ((status, rx'), tr') = spiTransfer os tr spiFD data [null] l
      in (0, tr'))"

text \<open>
  The three setters pass the address of their parameter to both requests. The value the
  read-back request stores there is never read again, so the model keeps only the return
  codes; the recorded argument is the content of the parameter when the call is made.
\<close>

definition spiSetMode :: "kernel \<Rightarrow> syscall list \<Rightarrow> int \<Rightarrow> u8 \<Rightarrow> int \<times> syscall list" where
  "spiSetMode os tr spiFD mode =
     (let (w, tr1) = sys os tr (Sys_ioctl spiFD SPI_IOC_WR_MODE (Arg_u8 mode)) in
      if ret w = - 1 then (- 1, tr1)
      else
        let (r, tr2) = sys os tr1 (Sys_ioctl spiFD SPI_IOC_RD_MODE (Arg_u8 mode)) in
        if ret r = - 1 then (- 1, tr2) else (0, tr2))"

definition spiSetSpeed :: "kernel \<Rightarrow> syscall list \<Rightarrow> int \<Rightarrow> u32 \<Rightarrow> int \<times> syscall list" where
  "spiSetSpeed os tr spiFD speed =
     (let (w, tr1) = sys os tr (Sys_ioctl spiFD SPI_IOC_WR_MAX_SPEED_HZ (Arg_u32 speed)) in
      if ret w = - 1 then (- 1, tr1)
      else
        let (r, tr2) = sys os tr1 (Sys_ioctl spiFD SPI_IOC_RD_MAX_SPEED_HZ (Arg_u32 speed)) in
        if ret r = - 1 then (- 1, tr2) else (0, tr2))"

definition spiSetBitsPerWord :: "kernel \<Rightarrow> syscall list \<Rightarrow> int \<Rightarrow> u8 \<Rightarrow> int \<times> syscall list" where
  "spiSetBitsPerWord os tr spiFD bpw =
     (let (w, tr1) = sys os tr (Sys_ioctl spiFD SPI_IOC_WR_BITS_PER_WORD (Arg_u8 bpw)) in
      if ret w = - 1 then (- 1, tr1)
      else
        let (r, tr2) = sys os tr1 (Sys_ioctl spiFD SPI_IOC_RD_BITS_PER_WORD (Arg_u8 bpw)) in
        if ret r = - 1 then (- 1, tr2) else (0, tr2))"

definition spiOpen ::
  "kernel \<Rightarrow> syscall list \<Rightarrow> u8 \<Rightarrow> u8 \<Rightarrow> u32 \<Rightarrow> u8 \<Rightarrow> u8 \<Rightarrow> int \<times> syscall list" where
  "spiOpen os tr bus device speed mode bpw =
     (let fsBuf = snprintf_path MAX_PATH bus device;
          (r, tr0) = sys os tr (Sys_open fsBuf O_RDWR);
          spiFD = ret r
      in
        if spiFD < 0 then (- 1, tr0)
        else
          let (m, tr1) = spiSetMode os tr0 spiFD mode in
          if m = - 1 then (- 1, tr1)
          else
            let (s, tr2) = spiSetSpeed os tr1 spiFD speed in
            if s = - 1 then (- 1, tr2)
            else
              let (b, tr3) = spiSetBitsPerWord os tr2 spiFD bpw in
              if b = - 1 then (- 1, tr3) else (spiFD, tr3))"

definition spiClose :: "kernel \<Rightarrow> syscall list \<Rightarrow> int \<Rightarrow> syscall list" where
  "spiClose os tr spiFD = snd (sys os tr (Sys_close spiFD))"

subsection \<open>Observers and kernels used to state the properties\<close>

text \<open>
  The file descriptors open after the calls \<open>cs\<close>, issued after the calls \<open>hist\<close>:
  a successful \<^verbatim>\<open>open\<close> adds the descriptor it returned, \<^verbatim>\<open>close\<close> removes its
  argument.
\<close>

fun open_handles :: "kernel \<Rightarrow> syscall list \<Rightarrow> syscall list \<Rightarrow> int list \<Rightarrow> int list" where
  "open_handles os hist [] fds = fds"
| "open_handles os hist (c # cs) fds =
     open_handles os (hist @ [c]) cs
       (case c of
          Sys_open p f \<Rightarrow> (if ret (os hist c) < 0 then fds else ret (os hist c) # fds)
        | Sys_ioctl fd rq a \<Rightarrow> fds
        | Sys_close fd \<Rightarrow> remove1 fd fds)"

text \<open>The \<^verbatim>\<open>ioctl\<close> calls among a list of calls.\<close>

fun is_ioctl :: "syscall \<Rightarrow> bool" where
  "is_ioctl (Sys_ioctl fd rq a) = True"
| "is_ioctl (Sys_open p f) = False"
| "is_ioctl (Sys_close fd) = False"

text \<open>
  A recorded transfer request stays inside its receive buffer when the buffer holds at
  least as many bytes as the request's length.
\<close>

fun rx_fits :: "syscall \<Rightarrow> bool" where
  "rx_fits (Sys_ioctl fd rq (Arg_transfer t)) = (unat (len t) \<le> length (rx_buf t))"
| "rx_fits (Sys_ioctl fd rq (Arg_u8 v)) = True"
| "rx_fits (Sys_ioctl fd rq (Arg_u32 v)) = True"
| "rx_fits (Sys_open p f) = True"
| "rx_fits (Sys_close fd) = True"

text \<open>A kernel whose return codes, or whose copied-out bytes, are replaced.\<close>

definition with_ret :: "kernel \<Rightarrow> (syscall list \<Rightarrow> syscall \<Rightarrow> int) \<Rightarrow> kernel" where
  "with_ret os f = (\<lambda>tr c. (os tr c)\<lparr>ret := f tr c\<rparr>)"

definition with_copied :: "kernel \<Rightarrow> (syscall list \<Rightarrow> syscall \<Rightarrow> u8 list) \<Rightarrow> kernel" where
  "with_copied os g = (\<lambda>tr c. (os tr c)\<lparr>copied := g tr c\<rparr>)"

text \<open>A process with 8 MiB of stack left, for which every \<^verbatim>\<open>malloc\<close> returns a buffer.\<close>

definition mem_typical :: memory where
  "mem_typical = \<lparr>stack_free = 8388608, malloc_succeeds = (\<lambda>n. True)\<rparr>"


text \<open>A kernel on which no device path can be opened: every call fails.\<close>

definition os_unreachable :: kernel where
  "os_unreachable tr c = \<lparr>ret = - 1, copied = []\<rparr>"

text \<open>
  A stub device: \<^verbatim>\<open>open\<close> returns descriptor 3, every configuration request succeeds
  and reads back the byte \<open>0xFF\<close>, every transfer succeeds and receives
  \<open>0xAA, 1, 2, 3\<close>.
\<close>

definition os_stub :: kernel where
  "os_stub tr c =
     (case c of
        Sys_open p f \<Rightarrow> \<lparr>ret = 3, copied = []\<rparr>
      | Sys_ioctl fd (SPI_IOC_MESSAGE n) a \<Rightarrow> \<lparr>ret = 0, copied = [0xAA, 1, 2, 3]\<rparr>
      | Sys_ioctl fd rq a \<Rightarrow> \<lparr>ret = 0, copied = [0xFF]\<rparr>
      | Sys_close fd \<Rightarrow> \<lparr>ret = 0, copied = []\<rparr>)"

text \<open>The stub device, except that the request to set the mode fails.\<close>

definition os_mode_rejected :: kernel where
  "os_mode_rejected tr c =
     (case c of
        Sys_ioctl fd SPI_IOC_WR_MODE a \<Rightarrow> \<lparr>ret = - 1, copied = []\<rparr>
      | _ \<Rightarrow> os_stub tr c)"

text \<open>The stub device, except that every transfer fails and stores nothing.\<close>

definition os_transfer_fails :: kernel where
  "os_transfer_fails tr c =
     (case c of
        Sys_ioctl fd (SPI_IOC_MESSAGE n) a \<Rightarrow> \<lparr>ret = - 1, copied = []\<rparr>
      | _ \<Rightarrow> os_stub tr c)"

text \<open>The stub device, except that every transfer receives zero bytes only.\<close>

definition os_reads_zero :: kernel where
  "os_reads_zero tr c =
     (case c of
        Sys_ioctl fd (SPI_IOC_MESSAGE n) a \<Rightarrow> \<lparr>ret = 0, copied = [0, 0, 0, 0]\<rparr>
      | _ \<Rightarrow> os_stub tr c)"

section \<open>Basic facts about the model\<close>

lemma decimal_length: "n < 256 \<Longrightarrow> length (decimal n) \<le> 3"
  by (simp add: decimal.simps [of n] decimal.simps [of "n div 10"]
      decimal.simps [of "n div 10 div 10"])

lemma unat_u8_less: "unat (b :: u8) < 256"
  using unsigned_less [of b, where 'a = nat] by simp

lemma digit_char_value: "d < 10 \<Longrightarrow> of_char (digit_char d) = (48 + d :: nat)"
proof -
  assume "d < 10"
  then have "d \<in> set [0 ..< 10]"
    by simp
  also have "[0 ..< 10] = [0, 1, 2, 3, 4, 5, 6, 7, 8, 9 :: nat]"
    by code_simp
  finally show ?thesis
    by (auto simp: digit_char_def)
qed

text \<open>The digits \<open>decimal\<close> produces denote the number they were produced from.\<close>

lemma decimal_value: "foldl (\<lambda>a c. 10 * a + (of_char c - 48)) 0 (decimal n) = n"
proof (induction n rule: decimal.induct)
  case (1 n)
  show ?case
  proof (cases "n < 10")
    case True
    then show ?thesis by (simp add: decimal.simps [of n] digit_char_value)
  next
    case False
    with 1 show ?thesis by (simp add: decimal.simps [of n] digit_char_value)
  qed
qed

lemma path_length:
  "length (''/dev/spidev'' @ decimal (unat (bus :: u8)) @ ''.'' @ decimal (unat (device :: u8))) \<le> 18"
  using decimal_length [OF unat_u8_less [of bus]] decimal_length [OF unat_u8_less [of device]]
  by simp

lemma replicate_two: "replicate 2 x = [x, x]"
  by (simp add: numeral_2_eq_2)


lemma uint_length: "0 \<le> l \<Longrightarrow> l \<le> INT_MAX \<Longrightarrow> uint (word_of_int l :: u32) = l"
  by (simp add: INT_MAX_def uint_word_of_int take_bit_eq_mod)

lemma unat_length: "0 \<le> l \<Longrightarrow> l \<le> INT_MAX \<Longrightarrow> unat (word_of_int l :: u32) = nat l"
  using uint_length [of l] by (simp add: unat_eq_nat_uint)

lemma bit7_clear: "(w :: u8) < 0x80 \<Longrightarrow> \<not> bit w 7"
proof -
  assume "w < 0x80"
  then have "w < 2 ^ 7" by simp
  then have "w AND mask 7 = w" by (rule less_mask_eq)
  then have "bit w 7 = bit (w AND mask 7) 7" by simp
  then show ?thesis by (simp add: bit_and_iff bit_mask_iff)
qed

subsection \<open>What spiTransfer issues and returns\<close>

lemma spiTransfer_call:
  "snd (spiTransfer os tr fd tx rx l) =
     tr @ [Sys_ioctl fd (SPI_IOC_MESSAGE 1)
             (Arg_transfer \<lparr>tx_buf = tx, rx_buf = rx, len = word_of_int l,
                             speed_hz = 10000, bits_per_word = 8\<rparr>)]"
  by (simp add: spiTransfer_def sys_def Let_def)

lemma spiTransfer_status:
  "fst (fst (spiTransfer os tr fd tx rx l)) =
     (if ret (os tr (Sys_ioctl fd (SPI_IOC_MESSAGE 1)
             (Arg_transfer \<lparr>tx_buf = tx, rx_buf = rx, len = word_of_int l,
                             speed_hz = 10000, bits_per_word = 8\<rparr>))) < 0 then - 1 else 0)"
  by (simp add: spiTransfer_def sys_def Let_def)

lemma spiTransfer_rx:
  "snd (fst (spiTransfer os tr fd tx rx l)) =
     copy_to_user rx (take (unat (word_of_int l :: u32))
       (copied (os tr (Sys_ioctl fd (SPI_IOC_MESSAGE 1)
             (Arg_transfer \<lparr>tx_buf = tx, rx_buf = rx, len = word_of_int l,
                             speed_hz = 10000, bits_per_word = 8\<rparr>)))))"
  by (simp add: spiTransfer_def sys_def Let_def)

subsection \<open>Single-register access\<close>

lemma spiReadByte_call:
  "snd (spiReadByte os tr fd regAdd) =
     tr @ [Sys_ioctl fd (SPI_IOC_MESSAGE 1)
             (Arg_transfer \<lparr>tx_buf = [0x80 OR regAdd, 0], rx_buf = [0, 0], len = 2,
                             speed_hz = 10000, bits_per_word = 8\<rparr>)]"
  by (simp add: spiReadByte_def Let_def split_beta spiTransfer_call replicate_two)

lemma spiReadByte_value:
  "fst (spiReadByte os tr fd regAdd) =
     uint (copy_to_user [0, 0] (take 2 (copied (os tr (Sys_ioctl fd (SPI_IOC_MESSAGE 1)
             (Arg_transfer \<lparr>tx_buf = [0x80 OR regAdd, 0], rx_buf = [0, 0], len = 2,
                             speed_hz = 10000, bits_per_word = 8\<rparr>))))) ! 1)"
  by (simp add: spiReadByte_def Let_def split_beta spiTransfer_rx replicate_two)

lemma spiWriteRegByte_eq:
  "spiWriteRegByte os tr fd regAdd data =
     (0, tr @ [Sys_ioctl fd (SPI_IOC_MESSAGE 1)
                 (Arg_transfer \<lparr>tx_buf = [regAdd, data], rx_buf = [0, 0], len = 2,
                                 speed_hz = 10000, bits_per_word = 8\<rparr>)])"
  using spiTransfer_call [of os tr fd "[regAdd, data]" "[0, 0]" 2]
  by (simp add: spiWriteRegByte_def Let_def split_beta replicate_two)

subsection \<open>The setters\<close>

lemma spiSetMode_result:
  "fst (spiSetMode os tr fd mode) =
     (if ret (os tr (Sys_ioctl fd SPI_IOC_WR_MODE (Arg_u8 mode))) = - 1
         \<or> ret (os (tr @ [Sys_ioctl fd SPI_IOC_WR_MODE (Arg_u8 mode)])
                 (Sys_ioctl fd SPI_IOC_RD_MODE (Arg_u8 mode))) = - 1
      then - 1 else 0)"
  by (simp add: spiSetMode_def sys_def Let_def)

lemma spiSetMode_calls:
  "snd (spiSetMode os tr fd mode) =
     (if ret (os tr (Sys_ioctl fd SPI_IOC_WR_MODE (Arg_u8 mode))) = - 1
      then tr @ [Sys_ioctl fd SPI_IOC_WR_MODE (Arg_u8 mode)]
      else tr @ [Sys_ioctl fd SPI_IOC_WR_MODE (Arg_u8 mode),
                 Sys_ioctl fd SPI_IOC_RD_MODE (Arg_u8 mode)])"
  by (simp add: spiSetMode_def sys_def Let_def)

lemma spiSetSpeed_result:
  "fst (spiSetSpeed os tr fd speed) =
     (if ret (os tr (Sys_ioctl fd SPI_IOC_WR_MAX_SPEED_HZ (Arg_u32 speed))) = - 1
         \<or> ret (os (tr @ [Sys_ioctl fd SPI_IOC_WR_MAX_SPEED_HZ (Arg_u32 speed)])
                 (Sys_ioctl fd SPI_IOC_RD_MAX_SPEED_HZ (Arg_u32 speed))) = - 1
      then - 1 else 0)"
  by (simp add: spiSetSpeed_def sys_def Let_def)

lemma spiSetSpeed_calls:
  "snd (spiSetSpeed os tr fd speed) =
     (if ret (os tr (Sys_ioctl fd SPI_IOC_WR_MAX_SPEED_HZ (Arg_u32 speed))) = - 1
      then tr @ [Sys_ioctl fd SPI_IOC_WR_MAX_SPEED_HZ (Arg_u32 speed)]
      else tr @ [Sys_ioctl fd SPI_IOC_WR_MAX_SPEED_HZ (Arg_u32 speed),
                 Sys_ioctl fd SPI_IOC_RD_MAX_SPEED_HZ (Arg_u32 speed)])"
  by (simp add: spiSetSpeed_def sys_def Let_def)

lemma spiSetBitsPerWord_result:
  "fst (spiSetBitsPerWord os tr fd bpw) =
     (if ret (os tr (Sys_ioctl fd SPI_IOC_WR_BITS_PER_WORD (Arg_u8 bpw))) = - 1
         \<or> ret (os (tr @ [Sys_ioctl fd SPI_IOC_WR_BITS_PER_WORD (Arg_u8 bpw)])
                 (Sys_ioctl fd SPI_IOC_RD_BITS_PER_WORD (Arg_u8 bpw))) = - 1
      then - 1 else 0)"
  by (simp add: spiSetBitsPerWord_def sys_def Let_def)

lemma spiSetBitsPerWord_calls:
  "snd (spiSetBitsPerWord os tr fd bpw) =
     (if ret (os tr (Sys_ioctl fd SPI_IOC_WR_BITS_PER_WORD (Arg_u8 bpw))) = - 1
      then tr @ [Sys_ioctl fd SPI_IOC_WR_BITS_PER_WORD (Arg_u8 bpw)]
      else tr @ [Sys_ioctl fd SPI_IOC_WR_BITS_PER_WORD (Arg_u8 bpw),
                 Sys_ioctl fd SPI_IOC_RD_BITS_PER_WORD (Arg_u8 bpw)])"
  by (simp add: spiSetBitsPerWord_def sys_def Let_def)

lemma ret_with_copied: "ret (with_copied os g tr c) = ret (os tr c)"
  by (simp add: with_copied_def)

lemma copied_with_ret: "copied (with_ret os f tr c) = copied (os tr c)"
  by (simp add: with_ret_def)

subsection \<open>Opening a channel\<close>

lemma spiOpen_unopened:
  assumes "ret (os tr (Sys_open (snprintf_path MAX_PATH bus device) O_RDWR)) < 0"
  shows "spiOpen os tr bus device speed mode bpw =
           (- 1, tr @ [Sys_open (snprintf_path MAX_PATH bus device) O_RDWR])"
  using assms by (simp add: spiOpen_def sys_def Let_def)

lemma spiOpen_opened:
  assumes "\<not> ret (os tr (Sys_open (snprintf_path MAX_PATH bus device) O_RDWR)) < 0"
  shows "spiOpen os tr bus device speed mode bpw =
    (let fd = ret (os tr (Sys_open (snprintf_path MAX_PATH bus device) O_RDWR));
         tr0 = tr @ [Sys_open (snprintf_path MAX_PATH bus device) O_RDWR];
         tr1 = snd (spiSetMode os tr0 fd mode);
         tr2 = snd (spiSetSpeed os tr1 fd speed);
         tr3 = snd (spiSetBitsPerWord os tr2 fd bpw)
     in if fst (spiSetMode os tr0 fd mode) = - 1 then (- 1, tr1)
        else if fst (spiSetSpeed os tr1 fd speed) = - 1 then (- 1, tr2)
        else if fst (spiSetBitsPerWord os tr2 fd bpw) = - 1 then (- 1, tr3)
        else (fd, tr3))"
  using assms by (simp add: spiOpen_def sys_def Let_def split_beta)

lemma stub_path: "snprintf_path MAX_PATH 1 0 = ''/dev/spidev1.0''"
  by (simp add: snprintf_path_def MAX_PATH_def decimal.simps digit_char_def)

lemma spiOpen_first_call:
  "\<exists>rest. snd (spiOpen os tr bus device speed mode bpw) =
     tr @ Sys_open (snprintf_path MAX_PATH bus device) O_RDWR # rest"
proof (cases "ret (os tr (Sys_open (snprintf_path MAX_PATH bus device) O_RDWR)) < 0")
  case True
  then show ?thesis by (simp add: spiOpen_unopened)
next
  case False
  then show ?thesis
    by (simp add: spiOpen_opened Let_def spiSetMode_calls spiSetSpeed_calls
        spiSetBitsPerWord_calls)
qed

subsection \<open>Multi-byte access\<close>

lemma spiWriteBytes_eq:
  "spiWriteBytes os tr fd data l =
     (0, tr @ [Sys_ioctl fd (SPI_IOC_MESSAGE 1)
                 (Arg_transfer \<lparr>tx_buf = data, rx_buf = [0], len = word_of_int l,
                                 speed_hz = 10000, bits_per_word = 8\<rparr>)])"
  using spiTransfer_call [of os tr fd data "[0]" l]
  by (simp add: spiWriteBytes_def Let_def split_beta)

lemma read_frame: "0 \<le> l \<Longrightarrow>
  (replicate (nat (l + 1)) (0 :: u8))[0 := (0x80 OR 0x40) OR a] = (0xC0 OR a) # replicate (nat l) 0"
proof -
  assume "0 \<le> l"
  then have "nat (l + 1) = Suc (nat l)" by simp
  then show ?thesis by simp
qed


lemma spiReadBytes_value:
  assumes "0 \<le> l" "l < INT_MAX" "2 * (nat l + 1) \<le> stack_free mem"
  shows "fst (spiReadBytes os tr mem garbage fd l a) =
     (if malloc_succeeds mem (nat l) then
        Inr (take (nat l) (drop 1
          (copy_to_user (map garbage [0 ..< nat l + 1])
             (take (nat l + 1)
               (copied (os tr (Sys_ioctl fd (SPI_IOC_MESSAGE 1)
                  (Arg_transfer \<lparr>tx_buf = (0xC0 OR a) # replicate (nat l) 0,
                                  rx_buf = map garbage [0 ..< nat l + 1],
                                  len = word_of_int (l + 1),
                                  speed_hz = 10000, bits_per_word = 8\<rparr>))))))))
      else Inl Null_copy)"
proof -
  from assms have n: "nat (l + 1) = nat l + 1" by simp
  from assms have "unat (word_of_int (l + 1) :: u32) = nat (l + 1)"
    by (intro unat_length) (simp_all add: INT_MAX_def)
  then have u: "unat (word_of_int (l + 1) :: u32) = nat l + 1"
    by (simp only: n)
  show ?thesis
    using assms
    by (simp only: spiReadBytes_def Let_def split_beta spiTransfer_rx read_frame n u)
      (simp add: not_le)
qed

text \<open>A buffer is returned only by a call that got past the length and stack checks.\<close>

lemma spiReadBytes_returns:
  assumes "fst (spiReadBytes os tr mem garbage fd l a) = Inr data"
  shows "0 \<le> l \<and> l < INT_MAX \<and> 2 * (nat l + 1) \<le> stack_free mem"
proof -
  have range: "\<not> (l < 0 \<or> INT_MAX \<le> l)"
    using assms by (auto simp: spiReadBytes_def)
  then have fits: "\<not> stack_free mem < 2 * nat (l + 1)"
    using assms by (auto simp: spiReadBytes_def Let_def)
  from range have "nat (l + 1) = nat l + 1"
    by (simp add: nat_add_distrib)
  with range fits show ?thesis
    by simp
qed

lemma spiReadBytes_with_ret:
  "spiReadBytes (with_ret os f) tr mem garbage fd l a = spiReadBytes os tr mem garbage fd l a"
proof (rule prod_eqI)
  show "fst (spiReadBytes (with_ret os f) tr mem garbage fd l a) =
      fst (spiReadBytes os tr mem garbage fd l a)"
    by (simp add: spiReadBytes_def Let_def split_beta spiTransfer_rx copied_with_ret)
  show "snd (spiReadBytes (with_ret os f) tr mem garbage fd l a) =
      snd (spiReadBytes os tr mem garbage fd l a)"
    by (simp add: spiReadBytes_def Let_def split_beta spiTransfer_call)
qed

lemma mem_typical_simps:
  "stack_free mem_typical = 8388608" "malloc_succeeds mem_typical n = True"
  by (simp_all add: mem_typical_def)


section \<open>The claims\<close>

text \<open>
  C5. For every register address (in particular every address in 0..63), \<^verbatim>\<open>spiReadByte\<close>
  issues one 2-byte transfer whose transmit byte 0 is \<open>0x80 OR regAdd\<close> and whose
  transmit byte 1 is zero, and it returns the second received byte (receive index 1); the
  first received byte is discarded.
\<close>

theorem spiReadByte_frame:
  "snd (spiReadByte os tr fd regAdd) =
     tr @ [Sys_ioctl fd (SPI_IOC_MESSAGE 1)
             (Arg_transfer \<lparr>tx_buf = [0x80 OR regAdd, 0], rx_buf = [0, 0], len = 2,
                             speed_hz = 10000, bits_per_word = 8\<rparr>)]
   \<and> (copied (os tr (Sys_ioctl fd (SPI_IOC_MESSAGE 1)
             (Arg_transfer \<lparr>tx_buf = [0x80 OR regAdd, 0], rx_buf = [0, 0], len = 2,
                             speed_hz = 10000, bits_per_word = 8\<rparr>))) = b0 # b1 # rest
        \<longrightarrow> fst (spiReadByte os tr fd regAdd) = uint b1)"
  by (simp add: spiReadByte_call spiReadByte_value copy_to_user_def)

theorem spiReadByte_frame_witness:
  "snd (spiReadByte os_stub [] 3 5) =
     [Sys_ioctl 3 (SPI_IOC_MESSAGE 1)
        (Arg_transfer \<lparr>tx_buf = [0x85, 0], rx_buf = [0, 0], len = 2,
                        speed_hz = 10000, bits_per_word = 8\<rparr>)]
   \<and> fst (spiReadByte os_stub [] 3 5) = 1"
  using spiReadByte_frame [of os_stub "[]" 3 5 "0xAA" 1 "[2, 3]"]
  by (simp add: os_stub_def)

text \<open>
  C6. Every call of \<^verbatim>\<open>spiTransfer\<close> issues one transfer request whose descriptor has
  clock speed 10000 Hz and 8 bits per word, whatever calls were issued before it (in
  particular after the three setters have configured any mode, speed and bits per word),
  and whose length field is the length argument (for every non-negative \<^verbatim>\<open>int\<close>; in
  general its value modulo \<open>2^32\<close>).
\<close>

theorem spiTransfer_fixed_parameters:
  "\<exists>t. snd (spiTransfer os tr fd tx rx l) = tr @ [Sys_ioctl fd (SPI_IOC_MESSAGE 1) (Arg_transfer t)]
     \<and> last (snd (spiTransfer os
          (snd (spiSetBitsPerWord os (snd (spiSetSpeed os (snd (spiSetMode os tr fd mode)) fd speed)) fd bpw))
          fd tx rx l)) = Sys_ioctl fd (SPI_IOC_MESSAGE 1) (Arg_transfer t)
     \<and> speed_hz t = 10000 \<and> bits_per_word t = 8 \<and> tx_buf t = tx \<and> rx_buf t = rx
     \<and> uint (len t) = l mod 2 ^ 32
     \<and> (0 \<le> l \<and> l \<le> INT_MAX \<longrightarrow> uint (len t) = l)"
  by (simp add: spiTransfer_call INT_MAX_def uint_word_of_int take_bit_eq_mod)

theorem spiTransfer_fixed_parameters_witness:
  "(0 :: int) \<le> 2 \<and> 2 \<le> INT_MAX \<and>
   (\<exists>t. snd (spiTransfer os_stub [] 3 [0x85, 0] [0, 0] 2) = [Sys_ioctl 3 (SPI_IOC_MESSAGE 1) (Arg_transfer t)]
      \<and> speed_hz t = 10000 \<and> bits_per_word t = 8 \<and> uint (len t) = 2)"
  using spiTransfer_fixed_parameters [of os_stub "[]" 3 "[0x85, 0]" "[0, 0]" 2 0 0 0]
  by (auto simp: INT_MAX_def)

text \<open>
  C7. For every register address byte and data byte, \<^verbatim>\<open>spiWriteRegByte\<close> issues one
  2-byte transfer whose transmit frame is exactly \<open>[regAdd, data]\<close> (byte 0 is the raw
  address: its bit 7 is clear for an address below \<open>0x80\<close>), what the transfer receives
  does not reach the result, and the function returns 0 (success) whenever the transfer
  does not fail.
\<close>

theorem spiWriteRegByte_frame:
  "spiWriteRegByte os tr fd regAdd data =
     (0, tr @ [Sys_ioctl fd (SPI_IOC_MESSAGE 1)
                 (Arg_transfer \<lparr>tx_buf = [regAdd, data], rx_buf = [0, 0], len = 2,
                                 speed_hz = 10000, bits_per_word = 8\<rparr>)])
   \<and> spiWriteRegByte (with_copied os g) tr fd regAdd data = spiWriteRegByte os tr fd regAdd data
   \<and> (0 \<le> fst (fst (spiTransfer os tr fd [regAdd, data] [0, 0] 2))
        \<longrightarrow> fst (spiWriteRegByte os tr fd regAdd data) = 0)
   \<and> (regAdd < 0x80 \<longrightarrow> \<not> bit (hd [regAdd, data]) 7)"
  by (simp add: spiWriteRegByte_eq bit7_clear)

theorem spiWriteRegByte_frame_witness:
  "spiWriteRegByte os_stub [] 3 0x2D 0x08 =
     (0, [Sys_ioctl 3 (SPI_IOC_MESSAGE 1)
            (Arg_transfer \<lparr>tx_buf = [0x2D, 0x08], rx_buf = [0, 0], len = 2,
                            speed_hz = 10000, bits_per_word = 8\<rparr>)])
   \<and> fst (fst (spiTransfer os_stub [] 3 [0x2D, 0x08] [0, 0] 2)) = 0
   \<and> (0x2D :: u8) < 0x80"
  using spiWriteRegByte_frame [of os_stub "[]" 3 "0x2D" "0x08"]
  by (simp add: spiTransfer_status os_stub_def)

text \<open>
  C1. The claim: when \<^verbatim>\<open>open\<close> succeeds and a configuration step fails,
  \<^verbatim>\<open>spiOpen\<close> returns no handle and closes the descriptor it opened. The code
  returns \<open>-1\<close> but issues no \<^verbatim>\<open>close\<close>: on a device that rejects the mode,
  the calls are the \<^verbatim>\<open>open\<close> (returning descriptor 3) and the failing request, and
  descriptor 3 is still open afterwards. (On the stub device, \<^verbatim>\<open>spiOpen\<close> followed by
  \<^verbatim>\<open>spiClose\<close> leaves no descriptor open.)
\<close>

theorem spiOpen_leaks_descriptor:
  "spiOpen os_mode_rejected [] 1 0 500000 MODE0 8 =
     (- 1, [Sys_open ''/dev/spidev1.0'' O_RDWR, Sys_ioctl 3 SPI_IOC_WR_MODE (Arg_u8 0)])
   \<and> open_handles os_mode_rejected [] (snd (spiOpen os_mode_rejected [] 1 0 500000 MODE0 8)) [] = [3]
   \<and> open_handles os_stub []
       (spiClose os_stub (snd (spiOpen os_stub [] 1 0 500000 MODE0 8)) 3) [] = []"
  by (simp add: spiOpen_def spiClose_def sys_def Let_def stub_path os_mode_rejected_def os_stub_def
      spiSetMode_def spiSetSpeed_def spiSetBitsPerWord_def MODE0_def)

text \<open>
  C2, as the code has it. \<^verbatim>\<open>spiReadByte\<close> and \<^verbatim>\<open>spiReadBytes\<close> do not propagate
  a failure of \<^verbatim>\<open>spiTransfer\<close>: they drop its return code, so what they return and
  the calls they issue are the same whatever the transfer request returns.
  \<^verbatim>\<open>spiReadByte\<close> returns receive byte 1 of its zero-initialised receive buffer as the
  transfer left it, a value in 0..255; a buffer \<^verbatim>\<open>spiReadBytes\<close> returns holds the
  bytes at offsets \<open>1..len\<close> of its receive buffer as the transfer left it. Only
  \<^verbatim>\<open>spiTransfer\<close> itself reports the failure: it returns \<open>-1\<close> exactly when the
  request returns a negative value.
\<close>

theorem read_discards_transfer_status:
  "spiReadByte (with_ret os f) tr fd regAdd = spiReadByte os tr fd regAdd
   \<and> fst (spiReadByte os tr fd regAdd) =
       uint (copy_to_user [0, 0]
               (take 2 (copied (os tr (Sys_ioctl fd (SPI_IOC_MESSAGE 1)
                  (Arg_transfer \<lparr>tx_buf = [0x80 OR regAdd, 0], rx_buf = [0, 0], len = 2,
                                  speed_hz = 10000, bits_per_word = 8\<rparr>))))) ! 1)
   \<and> 0 \<le> fst (spiReadByte os tr fd regAdd) \<and> fst (spiReadByte os tr fd regAdd) \<le> 255
   \<and> spiReadBytes (with_ret os f) tr mem garbage fd l startAdd =
       spiReadBytes os tr mem garbage fd l startAdd
   \<and> (fst (spiReadBytes os tr mem garbage fd l startAdd) = Inr data \<longrightarrow>
        data = take (nat l) (drop 1
          (copy_to_user (map garbage [0 ..< nat l + 1])
             (take (nat l + 1)
               (copied (os tr (Sys_ioctl fd (SPI_IOC_MESSAGE 1)
                  (Arg_transfer \<lparr>tx_buf = (0xC0 OR startAdd) # replicate (nat l) 0,
                                  rx_buf = map garbage [0 ..< nat l + 1],
                                  len = word_of_int (l + 1),
                                  speed_hz = 10000, bits_per_word = 8\<rparr>))))))))
   \<and> (fst (fst (spiTransfer os tr fd tx rx n)) = - 1) =
       (ret (os tr (Sys_ioctl fd (SPI_IOC_MESSAGE 1)
          (Arg_transfer \<lparr>tx_buf = tx, rx_buf = rx, len = word_of_int n,
                          speed_hz = 10000, bits_per_word = 8\<rparr>))) < 0)"
proof (intro conjI impI)
  show "spiReadByte (with_ret os f) tr fd regAdd = spiReadByte os tr fd regAdd"
    by (rule prod_eqI) (simp_all only: spiReadByte_value spiReadByte_call copied_with_ret)
  show "fst (spiReadByte os tr fd regAdd) =
       uint (copy_to_user [0, 0]
               (take 2 (copied (os tr (Sys_ioctl fd (SPI_IOC_MESSAGE 1)
                  (Arg_transfer \<lparr>tx_buf = [0x80 OR regAdd, 0], rx_buf = [0, 0], len = 2,
                                  speed_hz = 10000, bits_per_word = 8\<rparr>))))) ! 1)"
    by (rule spiReadByte_value)
  show "0 \<le> fst (spiReadByte os tr fd regAdd)"
    by (simp only: spiReadByte_value) simp
  have "uint (w :: u8) \<le> 255" for w
    using uint_lt2p [of w] by simp
  then show "fst (spiReadByte os tr fd regAdd) \<le> 255"
    by (simp only: spiReadByte_value)
  show "spiReadBytes (with_ret os f) tr mem garbage fd l startAdd =
       spiReadBytes os tr mem garbage fd l startAdd"
    by (rule spiReadBytes_with_ret)
  show "data = take (nat l) (drop 1
          (copy_to_user (map garbage [0 ..< nat l + 1])
             (take (nat l + 1)
               (copied (os tr (Sys_ioctl fd (SPI_IOC_MESSAGE 1)
                  (Arg_transfer \<lparr>tx_buf = (0xC0 OR startAdd) # replicate (nat l) 0,
                                  rx_buf = map garbage [0 ..< nat l + 1],
                                  len = word_of_int (l + 1),
                                  speed_hz = 10000, bits_per_word = 8\<rparr>)))))))"
    if r: "fst (spiReadBytes os tr mem garbage fd l startAdd) = Inr data"
  proof -
    from spiReadBytes_returns [OF r]
    have ok: "0 \<le> l" "l < INT_MAX" "2 * (nat l + 1) \<le> stack_free mem"
      by simp_all
    from r show ?thesis
      unfolding spiReadBytes_value [OF ok]
      by (simp split: if_splits)
  qed
  show "(fst (fst (spiTransfer os tr fd tx rx n)) = - 1) =
       (ret (os tr (Sys_ioctl fd (SPI_IOC_MESSAGE 1)
          (Arg_transfer \<lparr>tx_buf = tx, rx_buf = rx, len = word_of_int n,
                          speed_hz = 10000, bits_per_word = 8\<rparr>))) < 0)"
    by (simp add: spiTransfer_status)
qed

theorem read_discards_transfer_status_witness:
  "fst (spiReadBytes os_transfer_fails [] mem_typical (\<lambda>i. 0) 3 2 5) = Inr [0, 0]
   \<and> [0, 0] = take (nat 2) (drop 1
          (copy_to_user (map (\<lambda>i. 0) [0 ..< nat 2 + 1])
             (take (nat 2 + 1)
               (copied (os_transfer_fails [] (Sys_ioctl 3 (SPI_IOC_MESSAGE 1)
                  (Arg_transfer \<lparr>tx_buf = (0xC0 OR 5) # replicate (nat 2) 0,
                                  rx_buf = map (\<lambda>i. 0) [0 ..< nat 2 + 1],
                                  len = word_of_int (2 + 1),
                                  speed_hz = 10000, bits_per_word = 8\<rparr>)))))))"
proof -
  have l: "(0 :: int) \<le> 2" "(2 :: int) < INT_MAX" "2 * (nat 2 + 1) \<le> stack_free mem_typical"
    by (simp_all add: INT_MAX_def mem_typical_simps)
  have n: "nat 2 = Suc (Suc 0)"
    by simp
  have r: "fst (spiReadBytes os_transfer_fails [] mem_typical (\<lambda>i. 0) 3 2 5) = Inr [0, 0]"
    by (simp add: spiReadBytes_value [OF l] mem_typical_simps os_transfer_fails_def
        copy_to_user_def n upt_rec)
  from read_discards_transfer_status
    [of os_transfer_fails _ "[]" 3 5 mem_typical "\<lambda>i. 0" 2 5 "[0, 0]"] r
  show ?thesis
    by blast
qed

text \<open>
  C2, as the claim states it, fails: on a device whose transfers fail (and store nothing),
  \<^verbatim>\<open>spiTransfer\<close> returns \<open>-1\<close>, yet \<^verbatim>\<open>spiReadByte\<close> returns the data byte 0
  and \<^verbatim>\<open>spiReadBytes\<close> returns a buffer, the same results as on a device whose
  transfers succeed and receive zero bytes.
\<close>

theorem read_transfer_error_not_propagated:
  "fst (fst (spiTransfer os_transfer_fails [] 3 [0x85, 0] [0, 0] 2)) = - 1
   \<and> fst (spiReadByte os_transfer_fails [] 3 5) = 0
   \<and> fst (spiReadByte os_reads_zero [] 3 5) = 0
   \<and> fst (spiReadBytes os_transfer_fails [] mem_typical (\<lambda>i. 0) 3 2 5) = Inr [0, 0]
   \<and> fst (spiReadBytes os_reads_zero [] mem_typical (\<lambda>i. 0) 3 2 5) = Inr [0, 0]"
proof -
  have l: "(0 :: int) \<le> 2" "(2 :: int) < INT_MAX" "2 * (nat 2 + 1) \<le> stack_free mem_typical"
    by (simp_all add: INT_MAX_def mem_typical_simps)
  have n: "nat 2 = Suc (Suc 0)"
    by simp
  show ?thesis
    by (simp add: spiTransfer_status spiReadByte_value spiReadBytes_value [OF l]
        mem_typical_simps os_transfer_fails_def os_reads_zero_def copy_to_user_def n upt_rec)
qed

text \<open>
  C3. The claim: \<^verbatim>\<open>spiWriteBytes\<close> never passes a receive buffer shorter than the
  transfer length. The code passes the address of a single byte as receive buffer for
  every length: for two data bytes and length 2 the recorded request has a 1-byte receive
  buffer and length 2, so it does not stay inside the buffer (the request of
  \<^verbatim>\<open>spiWriteRegByte\<close>, which passes a 2-byte array, does).
\<close>

theorem spiWriteBytes_short_receive_buffer:
  "snd (spiWriteBytes os tr fd data l) =
     tr @ [Sys_ioctl fd (SPI_IOC_MESSAGE 1)
             (Arg_transfer \<lparr>tx_buf = data, rx_buf = [0], len = word_of_int l,
                             speed_hz = 10000, bits_per_word = 8\<rparr>)]
   \<and> snd (spiWriteBytes os_stub [] 3 [0x01, 0x02] 2) =
     [Sys_ioctl 3 (SPI_IOC_MESSAGE 1)
        (Arg_transfer \<lparr>tx_buf = [0x01, 0x02], rx_buf = [0], len = 2,
                        speed_hz = 10000, bits_per_word = 8\<rparr>)]
   \<and> list_all rx_fits (snd (spiWriteBytes os_stub [] 3 [0x01, 0x02] 2)) = False
   \<and> list_all rx_fits (snd (spiWriteRegByte os_stub [] 3 0x01 0x02)) = True"
  by (simp add: spiWriteBytes_eq spiWriteRegByte_eq)




text \<open>
  C8. Each of \<^verbatim>\<open>spiSetMode\<close>, \<^verbatim>\<open>spiSetSpeed\<close> and \<^verbatim>\<open>spiSetBitsPerWord\<close> issues
  the write request with the requested value and then, unless the write failed, the
  read-back request on the same variable. It returns \<open>-1\<close> if and only if the write
  request or the read-back request returns \<open>-1\<close>, and 0 otherwise. The value read back
  is never compared: replacing the bytes the kernel copies out changes neither the result
  nor the requests issued.
\<close>

theorem setters_write_then_read_back:
  "fst (spiSetMode os tr fd mode) =
     (if ret (os tr (Sys_ioctl fd SPI_IOC_WR_MODE (Arg_u8 mode))) = - 1
         \<or> ret (os (tr @ [Sys_ioctl fd SPI_IOC_WR_MODE (Arg_u8 mode)])
                 (Sys_ioctl fd SPI_IOC_RD_MODE (Arg_u8 mode))) = - 1
      then - 1 else 0)
   \<and> snd (spiSetMode os tr fd mode) =
     (if ret (os tr (Sys_ioctl fd SPI_IOC_WR_MODE (Arg_u8 mode))) = - 1
      then tr @ [Sys_ioctl fd SPI_IOC_WR_MODE (Arg_u8 mode)]
      else tr @ [Sys_ioctl fd SPI_IOC_WR_MODE (Arg_u8 mode),
                 Sys_ioctl fd SPI_IOC_RD_MODE (Arg_u8 mode)])
   \<and> spiSetMode (with_copied os g) tr fd mode = spiSetMode os tr fd mode
   \<and> fst (spiSetSpeed os tr fd speed) =
     (if ret (os tr (Sys_ioctl fd SPI_IOC_WR_MAX_SPEED_HZ (Arg_u32 speed))) = - 1
         \<or> ret (os (tr @ [Sys_ioctl fd SPI_IOC_WR_MAX_SPEED_HZ (Arg_u32 speed)])
                 (Sys_ioctl fd SPI_IOC_RD_MAX_SPEED_HZ (Arg_u32 speed))) = - 1
      then - 1 else 0)
   \<and> snd (spiSetSpeed os tr fd speed) =
     (if ret (os tr (Sys_ioctl fd SPI_IOC_WR_MAX_SPEED_HZ (Arg_u32 speed))) = - 1
      then tr @ [Sys_ioctl fd SPI_IOC_WR_MAX_SPEED_HZ (Arg_u32 speed)]
      else tr @ [Sys_ioctl fd SPI_IOC_WR_MAX_SPEED_HZ (Arg_u32 speed),
                 Sys_ioctl fd SPI_IOC_RD_MAX_SPEED_HZ (Arg_u32 speed)])
   \<and> spiSetSpeed (with_copied os g) tr fd speed = spiSetSpeed os tr fd speed
   \<and> fst (spiSetBitsPerWord os tr fd bpw) =
     (if ret (os tr (Sys_ioctl fd SPI_IOC_WR_BITS_PER_WORD (Arg_u8 bpw))) = - 1
         \<or> ret (os (tr @ [Sys_ioctl fd SPI_IOC_WR_BITS_PER_WORD (Arg_u8 bpw)])
                 (Sys_ioctl fd SPI_IOC_RD_BITS_PER_WORD (Arg_u8 bpw))) = - 1
      then - 1 else 0)
   \<and> snd (spiSetBitsPerWord os tr fd bpw) =
     (if ret (os tr (Sys_ioctl fd SPI_IOC_WR_BITS_PER_WORD (Arg_u8 bpw))) = - 1
      then tr @ [Sys_ioctl fd SPI_IOC_WR_BITS_PER_WORD (Arg_u8 bpw)]
      else tr @ [Sys_ioctl fd SPI_IOC_WR_BITS_PER_WORD (Arg_u8 bpw),
                 Sys_ioctl fd SPI_IOC_RD_BITS_PER_WORD (Arg_u8 bpw)])
   \<and> spiSetBitsPerWord (with_copied os g) tr fd bpw = spiSetBitsPerWord os tr fd bpw"
proof -
  have mode: "spiSetMode (with_copied os g) tr fd mode = spiSetMode os tr fd mode"
    by (rule prod_eqI) (simp_all only: spiSetMode_result spiSetMode_calls ret_with_copied)
  have speed: "spiSetSpeed (with_copied os g) tr fd speed = spiSetSpeed os tr fd speed"
    by (rule prod_eqI) (simp_all only: spiSetSpeed_result spiSetSpeed_calls ret_with_copied)
  have bpw: "spiSetBitsPerWord (with_copied os g) tr fd bpw = spiSetBitsPerWord os tr fd bpw"
    by (rule prod_eqI)
      (simp_all only: spiSetBitsPerWord_result spiSetBitsPerWord_calls ret_with_copied)
  show ?thesis
    by (simp only: mode speed bpw spiSetMode_result spiSetMode_calls spiSetSpeed_result
        spiSetSpeed_calls spiSetBitsPerWord_result spiSetBitsPerWord_calls simp_thms)
qed

text \<open>
  C9, as the code has it. If the device path cannot be opened (\<^verbatim>\<open>open\<close> returns a
  negative value), \<^verbatim>\<open>spiOpen\<close> returns \<open>-1\<close> and issues no call but the
  \<^verbatim>\<open>open\<close>: no configuration request. If the path is opened and one of the three
  configuration steps fails, \<^verbatim>\<open>spiOpen\<close> returns \<open>-1\<close> as well.
\<close>

theorem spiOpen_failure_report:
  "(ret (os tr (Sys_open (snprintf_path MAX_PATH bus device) O_RDWR)) < 0 \<longrightarrow>
      spiOpen os tr bus device speed mode bpw =
        (- 1, tr @ [Sys_open (snprintf_path MAX_PATH bus device) O_RDWR])
      \<and> filter is_ioctl (drop (length tr) (snd (spiOpen os tr bus device speed mode bpw))) = [])
   \<and> (0 \<le> ret (os tr (Sys_open (snprintf_path MAX_PATH bus device) O_RDWR)) \<longrightarrow>
       (let fd = ret (os tr (Sys_open (snprintf_path MAX_PATH bus device) O_RDWR));
            tr0 = tr @ [Sys_open (snprintf_path MAX_PATH bus device) O_RDWR];
            tr1 = snd (spiSetMode os tr0 fd mode);
            tr2 = snd (spiSetSpeed os tr1 fd speed)
        in fst (spiSetMode os tr0 fd mode) = - 1
           \<or> fst (spiSetSpeed os tr1 fd speed) = - 1
           \<or> fst (spiSetBitsPerWord os tr2 fd bpw) = - 1) \<longrightarrow>
       fst (spiOpen os tr bus device speed mode bpw) = - 1)"
proof (intro conjI impI)
  assume "ret (os tr (Sys_open (snprintf_path MAX_PATH bus device) O_RDWR)) < 0"
  then have eq: "spiOpen os tr bus device speed mode bpw =
      (- 1, tr @ [Sys_open (snprintf_path MAX_PATH bus device) O_RDWR])"
    by (rule spiOpen_unopened)
  show "spiOpen os tr bus device speed mode bpw =
      (- 1, tr @ [Sys_open (snprintf_path MAX_PATH bus device) O_RDWR])"
    by (rule eq)
  show "filter is_ioctl (drop (length tr) (snd (spiOpen os tr bus device speed mode bpw))) = []"
    by (simp add: eq)
next
  assume opened: "0 \<le> ret (os tr (Sys_open (snprintf_path MAX_PATH bus device) O_RDWR))"
    and failed: "let fd = ret (os tr (Sys_open (snprintf_path MAX_PATH bus device) O_RDWR));
            tr0 = tr @ [Sys_open (snprintf_path MAX_PATH bus device) O_RDWR];
            tr1 = snd (spiSetMode os tr0 fd mode);
            tr2 = snd (spiSetSpeed os tr1 fd speed)
        in fst (spiSetMode os tr0 fd mode) = - 1
           \<or> fst (spiSetSpeed os tr1 fd speed) = - 1
           \<or> fst (spiSetBitsPerWord os tr2 fd bpw) = - 1"
  from opened have "\<not> ret (os tr (Sys_open (snprintf_path MAX_PATH bus device) O_RDWR)) < 0"
    by simp
  with spiOpen_opened [of os tr bus device speed mode bpw] failed
  show "fst (spiOpen os tr bus device speed mode bpw) = - 1"
    by (auto simp: Let_def)
qed

theorem spiOpen_failure_report_witness:
  "spiOpen os_unreachable [] 1 0 500000 MODE0 8 = (- 1, [Sys_open ''/dev/spidev1.0'' O_RDWR])
   \<and> filter is_ioctl (snd (spiOpen os_unreachable [] 1 0 500000 MODE0 8)) = []
   \<and> 0 \<le> ret (os_mode_rejected [] (Sys_open ''/dev/spidev1.0'' O_RDWR))
   \<and> fst (spiSetMode os_mode_rejected [Sys_open ''/dev/spidev1.0'' O_RDWR] 3 MODE0) = - 1
   \<and> fst (spiOpen os_mode_rejected [] 1 0 500000 MODE0 8) = - 1"
  using spiOpen_failure_report [of os_unreachable "[]" 1 0 500000 MODE0 8]
    spiOpen_failure_report [of os_mode_rejected "[]" 1 0 500000 MODE0 8]
  by (simp add: stub_path os_unreachable_def os_mode_rejected_def os_stub_def
      spiSetMode_result MODE0_def)

text \<open>
  C9, as the claim states it, fails: a configuration failure after a successful
  \<^verbatim>\<open>open\<close> is not reported by a value distinct from the one that reports a failed
  \<^verbatim>\<open>open\<close>. On an unreachable device and on a device that rejects the mode,
  \<^verbatim>\<open>spiOpen\<close> returns the same value.
\<close>

theorem spiOpen_errors_not_distinct:
  "ret (os_unreachable [] (Sys_open ''/dev/spidev1.0'' O_RDWR)) < 0
   \<and> 0 \<le> ret (os_mode_rejected [] (Sys_open ''/dev/spidev1.0'' O_RDWR))
   \<and> fst (spiSetMode os_mode_rejected [Sys_open ''/dev/spidev1.0'' O_RDWR] 3 MODE0) = - 1
   \<and> fst (spiOpen os_unreachable [] 1 0 500000 MODE0 8) =
       fst (spiOpen os_mode_rejected [] 1 0 500000 MODE0 8)"
  by (simp add: spiOpen_def sys_def Let_def stub_path os_unreachable_def os_mode_rejected_def
      os_stub_def spiSetMode_def MODE0_def)


text \<open>
  C10. For every bus and device number (unsigned 8-bit values), the path
  \<^verbatim>\<open>snprintf\<close> leaves in the 50-byte buffer is exactly \<open>/dev/spidev{bus}.{device}\<close>,
  not truncated: with its terminator it needs at most 19 bytes, the 19 bytes of
  \<open>/dev/spidev255.255\<close>, which is less than the capacity \<open>MAX_PATH\<close>. This path is
  the one \<^verbatim>\<open>spiOpen\<close> passes to \<^verbatim>\<open>open\<close>, its first call.
\<close>

theorem spiOpen_path_not_truncated:
  "snprintf_path MAX_PATH bus device =
     ''/dev/spidev'' @ decimal (unat bus) @ ''.'' @ decimal (unat device)
   \<and> length (snprintf_path MAX_PATH bus device) + 1 \<le> 19
   \<and> snprintf_path MAX_PATH 255 255 = ''/dev/spidev255.255''
   \<and> length (snprintf_path MAX_PATH 255 255) + 1 = 19
   \<and> 19 < MAX_PATH
   \<and> (\<exists>rest. snd (spiOpen os tr bus device speed mode bpw) =
          tr @ Sys_open (''/dev/spidev'' @ decimal (unat bus) @ ''.'' @ decimal (unat device)) O_RDWR
             # rest)"
proof -
  have full: "snprintf_path MAX_PATH bus device =
     ''/dev/spidev'' @ decimal (unat bus) @ ''.'' @ decimal (unat device)"
    using path_length [of bus device] by (simp add: snprintf_path_def MAX_PATH_def)
  have longest: "snprintf_path MAX_PATH 255 255 = ''/dev/spidev255.255''"
    by (simp add: snprintf_path_def MAX_PATH_def decimal.simps digit_char_def)
  have opened: "\<exists>rest. snd (spiOpen os tr bus device speed mode bpw) =
      tr @ Sys_open (''/dev/spidev'' @ decimal (unat bus) @ ''.'' @ decimal (unat device)) O_RDWR
         # rest"
    using spiOpen_first_call [of os tr bus device speed mode bpw] by (simp only: full)
  have bound: "length (snprintf_path MAX_PATH bus device) + 1 \<le> 19"
    using path_length [of bus device] by (simp add: full)
  have cap: "19 < MAX_PATH"
    by (simp add: MAX_PATH_def)
  have longest_length: "length (snprintf_path MAX_PATH 255 255) + 1 = 19"
    by (simp add: longest)
  show ?thesis
    using full bound longest longest_length cap opened by (intro conjI)
qed

end
